theory Spec2Isabelle
  imports Complex_Main "HOL-Library.Sublist"
begin

section \<open>Python strings\<close>

text \<open>
  A Python \<open>str\<close> is a sequence of Unicode code points, so it is modelled as a list of
  naturals. \<open>ascii\<close> embeds an ASCII literal; the Japanese text of \<open>app.py\<close> is written as
  code points, with a gloss beside each constant.
\<close>

type_synonym codepoint = nat
type_synonym pystr = "codepoint list"

definition ascii :: "string \<Rightarrow> pystr" where
  "ascii s = map of_char s"

text \<open>
  \<open>str.isspace\<close> for one code point: the characters \<open>str.strip()\<close> removes when it is
  called with no argument.
\<close>

definition py_isspace :: "codepoint \<Rightarrow> bool" where
  "py_isspace c =
     ((0x09 \<le> c \<and> c \<le> 0x0D) \<or> (0x1C \<le> c \<and> c \<le> 0x20) \<or> c = 0x85 \<or> c = 0xA0 \<or>
      c = 0x1680 \<or> (0x2000 \<le> c \<and> c \<le> 0x200A) \<or> c = 0x2028 \<or> c = 0x2029 \<or>
      c = 0x202F \<or> c = 0x205F \<or> c = 0x3000)"

definition strip :: "pystr \<Rightarrow> pystr" where
  "strip s = rev (dropWhile py_isspace (rev (dropWhile py_isspace s)))"

text \<open>Truthiness of a value of type \<open>str | None\<close>: \<open>None\<close> and \<open>""\<close> are falsy.\<close>

fun truthy :: "pystr option \<Rightarrow> bool" where
  "truthy None = False"
| "truthy (Some s) = (s \<noteq> [])"

text \<open>The string behind a value of type \<open>str | None\<close>; used on truthy values only.\<close>

fun the_str :: "pystr option \<Rightarrow> pystr" where
  "the_str None = []"
| "the_str (Some s) = s"

section \<open>Exceptions\<close>

text \<open>
  The submission handler tells exceptions apart by \<open>except RuntimeError\<close> and
  \<open>except Exception\<close>, and prints \<open>type(e).__name__\<close> and \<open>str(e)\<close>. An exception is
  therefore its class name, its message, and the most specific of the three classes
  \<open>RuntimeError\<close>, \<open>Exception\<close>, \<open>BaseException\<close> that its class derives from.
\<close>

datatype exc_base = SubRuntimeError | SubException | SubBaseException

record pyexc =
  base :: exc_base
  cls_name :: pystr
  message :: pystr

definition ValueError :: "pystr \<Rightarrow> pyexc" where
  "ValueError msg = \<lparr>base = SubException, cls_name = ascii ''ValueError'', message = msg\<rparr>"

definition RuntimeError :: "pystr \<Rightarrow> pyexc" where
  "RuntimeError msg = \<lparr>base = SubRuntimeError, cls_name = ascii ''RuntimeError'', message = msg\<rparr>"

text \<open>
  Streamlit's own error for a missing secrets file. Its class derives from
  \<open>FileNotFoundError\<close>, so it is an \<open>Exception\<close> and not a \<open>RuntimeError\<close>.
\<close>

definition StreamlitSecretNotFoundError :: "pystr \<Rightarrow> pyexc" where
  "StreamlitSecretNotFoundError msg =
     \<lparr>base = SubException, cls_name = ascii ''StreamlitSecretNotFoundError'', message = msg\<rparr>"

section \<open>The world outside the script\<close>

text \<open>
  \<open>ChatOpenAI(api_key=..., model=..., temperature=...)\<close> is the client configuration;
  \<open>llm.invoke(messages)\<close> is the one network call. The reply is an object that may or
  may not have a \<open>content\<close> attribute and that \<open>str\<close> converts to some text.
\<close>

datatype message = SystemMessage pystr | HumanMessage pystr

record chat_openai =
  api_key :: pystr
  model :: pystr
  temperature :: real

record reply =
  content :: "pystr option"
  str_of :: pystr

text \<open>
  The secret store is a \<open>secrets.toml\<close> file that Streamlit parses when \<open>st.secrets\<close> is
  first read. Either no such file exists, and then reading \<open>st.secrets\<close> raises
  \<open>StreamlitSecretNotFoundError\<close> with a message that lists the paths searched; or it
  exists and holds the given entries.
\<close>

datatype secrets_toml = No_secrets_toml pystr | Secrets_toml "pystr \<rightharpoonup> pystr"

text \<open>
  \<open>st_secrets\<close> is the secret store, \<open>os_environ\<close> the process environment after
  \<open>load_dotenv()\<close> and before \<open>st.secrets\<close> is read, and \<open>llm_invoke\<close> what the remote
  model does with a request: it raises or it replies.
\<close>

record world =
  st_secrets :: secrets_toml
  os_environ :: "pystr \<rightharpoonup> pystr"
  llm_invoke :: "chat_openai \<Rightarrow> message list \<Rightarrow> pyexc + reply"

text \<open>Every access to the outside and every Streamlit call is recorded, in order.\<close>

datatype st_call =
  St_warning pystr | St_spinner pystr | St_success pystr | St_write pystr
| St_error pystr | St_info pystr

datatype event =
  Secrets_get pystr
| Os_getenv pystr
| Llm_invoke chat_openai "message list"
| St st_call

text \<open>
  \<open>st.secrets.get(k, None)\<close>, as Streamlit behaves: the read parses the file and raises
  when there is none; \<open>get\<close> gives the entry, or \<open>None\<close> for a key the file lacks.
\<close>

definition secrets_get :: "world \<Rightarrow> pystr \<Rightarrow> pyexc + pystr option" where
  "secrets_get w k =
     (case st_secrets w of
        No_secrets_toml msg \<Rightarrow> Inl (StreamlitSecretNotFoundError msg)
      | Secrets_toml entries \<Rightarrow> Inr (entries k))"

text \<open>
  \<open>os.environ\<close> once \<open>st.secrets\<close> has been read: parsing the file copies every string
  secret into the environment, over a variable of the same name.
\<close>

definition environ_after_secrets :: "world \<Rightarrow> (pystr \<rightharpoonup> pystr)" where
  "environ_after_secrets w =
     (case st_secrets w of
        No_secrets_toml msg \<Rightarrow> os_environ w
      | Secrets_toml entries \<Rightarrow> os_environ w ++ entries)"

section \<open>Constants of app.py\<close>

definition OPENAI_API_KEY :: pystr where
  "OPENAI_API_KEY = ascii ''OPENAI_API_KEY''"

text \<open>Line 35: "You are a cooking expert. Give concrete, reproducible recipes and cooking advice
  for the user's conditions."\<close>

definition PROMPT_A :: pystr where
  "PROMPT_A =
     [0x3042, 0x306A, 0x305F, 0x306F, 0x6599, 0x7406, 0x306E, 0x5C02, 0x9580, 0x5BB6, 0x3067,
      0x3059, 0x3002, 0x30E6, 0x30FC, 0x30B6, 0x30FC, 0x306E, 0x6761, 0x4EF6, 0x306B, 0x5177,
      0x4F53, 0x7684, 0x3067, 0x518D, 0x73FE, 0x6027, 0x306E, 0x9AD8, 0x3044, 0x30EC, 0x30B7,
      0x30D4, 0x3068, 0x8ABF, 0x7406, 0x306E, 0x30A2, 0x30C9, 0x30D0, 0x30A4, 0x30B9, 0x3092,
      0x3057, 0x3066, 0x304F, 0x3060, 0x3055, 0x3044, 0x3002]"

text \<open>Line 36: "You are an economics/investment expert. Give concrete, practical advice on the
  user's question."\<close>

definition PROMPT_B :: pystr where
  "PROMPT_B =
     [0x3042, 0x306A, 0x305F, 0x306F, 0x7D4C, 0x6E08] @ ascii ''/'' @
     [0x6295, 0x8CC7, 0x306E, 0x5C02, 0x9580, 0x5BB6, 0x3067, 0x3059, 0x3002, 0x30E6, 0x30FC,
      0x30B6, 0x30FC, 0x306E, 0x8CEA, 0x554F, 0x306B, 0x5BFE, 0x3057, 0x3066, 0x5177, 0x4F53,
      0x7684, 0x3067, 0x5B9F, 0x52D9, 0x7684, 0x306A, 0x30A2, 0x30C9, 0x30D0, 0x30A4, 0x30B9,
      0x3092, 0x3057, 0x3066, 0x304F, 0x3060, 0x3055, 0x3044, 0x3002]"

definition SYSTEM_PROMPTS :: "pystr \<rightharpoonup> pystr" where
  "SYSTEM_PROMPTS = map_of [(ascii ''A'', PROMPT_A), (ascii ''B'', PROMPT_B)]"

text \<open>Line 41: "expert_choice: specify 'A' or 'B'."\<close>

definition INVALID_CHOICE_MSG :: pystr where
  "INVALID_CHOICE_MSG =
     ascii ''expert_choice '' @ [0x306F] @ ascii '' '' @ [0x27] @ ascii ''A'' @ [0x27] @
     ascii '' '' @ [0x307E, 0x305F, 0x306F] @ ascii '' '' @ [0x27] @ ascii ''B'' @ [0x27] @
     ascii '' '' @ [0x3092, 0x6307, 0x5B9A, 0x3057, 0x3066, 0x304F, 0x3060, 0x3055, 0x3044, 0x3002]"

text \<open>Lines 46-47: "OPENAI_API_KEY not found. Locally write OPENAI_API_KEY=... in .env; on
  Streamlit Cloud set it in Secrets."\<close>

definition MISSING_KEY_MSG :: pystr where
  "MISSING_KEY_MSG =
     ascii ''OPENAI_API_KEY '' @
     [0x304C, 0x898B, 0x3064, 0x304B, 0x308A, 0x307E, 0x305B, 0x3093, 0x3002, 0x30ED, 0x30FC,
      0x30AB, 0x30EB, 0x3067, 0x306F] @
     ascii '' .env '' @ [0x306B] @ ascii '' OPENAI_API_KEY=... '' @
     [0x3092, 0x8A18, 0x8F09, 0x3001] @ ascii ''Streamlit Cloud '' @ [0x3067, 0x306F] @
     ascii '' Secrets '' @
     [0x306B, 0x8A2D, 0x5B9A, 0x3057, 0x3066, 0x304F, 0x3060, 0x3055, 0x3044, 0x3002]"

definition MODEL_NAME :: pystr where
  "MODEL_NAME = ascii ''gpt-4o-mini''"

text \<open>Line 81: "Please enter your question."\<close>

definition WARNING_MSG :: pystr where
  "WARNING_MSG =
     [0x8CEA, 0x554F, 0x5185, 0x5BB9, 0x3092, 0x5165, 0x529B, 0x3057, 0x3066, 0x304F, 0x3060,
      0x3055, 0x3044, 0x3002]"

text \<open>Line 83: "Thinking..."; line 85: "Answer".\<close>

definition SPINNER_MSG :: pystr where
  "SPINNER_MSG = [0x8003, 0x3048, 0x3066, 0x3044, 0x307E, 0x3059] @ ascii ''...''"

definition SUCCESS_MSG :: pystr where
  "SUCCESS_MSG = [0x56DE, 0x7B54]"

text \<open>Lines 91-92: "Local development: create `.env` in the project root and put
  `OPENAI_API_KEY=...` in it. (newline) Streamlit Cloud: App settings -> Secrets, set
  `OPENAI_API_KEY`."\<close>

definition REMEDIATION_HINT :: pystr where
  "REMEDIATION_HINT =
     [0x30ED, 0x30FC, 0x30AB, 0x30EB, 0x958B, 0x767A] @ ascii '': '' @
     [0x30D7, 0x30ED, 0x30B8, 0x30A7, 0x30AF, 0x30C8, 0x76F4, 0x4E0B, 0x306B] @ ascii '' '' @
     [0x60] @ ascii ''.env'' @ [0x60] @ ascii '' '' @ [0x3092, 0x4F5C, 0x6210, 0x3057, 0x3066] @
     ascii '' '' @ [0x60] @ ascii ''OPENAI_API_KEY=...'' @ [0x60] @ ascii '' '' @
     [0x3092, 0x5165, 0x308C, 0x3066, 0x304F, 0x3060, 0x3055, 0x3044, 0x3002, 0x0A] @
     ascii ''Streamlit Cloud: App settings '' @ [0x2192] @ ascii '' Secrets '' @ [0x306B] @
     ascii '' '' @ [0x60] @ ascii ''OPENAI_API_KEY'' @ [0x60] @ ascii '' '' @
     [0x3092, 0x8A2D, 0x5B9A, 0x3057, 0x3066, 0x304F, 0x3060, 0x3055, 0x3044, 0x3002]"

text \<open>Line 96: the f-string "An error occurred: {type(e).__name__}: {e}".\<close>

definition GENERIC_ERROR :: "pyexc \<Rightarrow> pystr" where
  "GENERIC_ERROR e =
     [0x30A8, 0x30E9, 0x30FC, 0x304C, 0x767A, 0x751F, 0x3057, 0x307E, 0x3057, 0x305F] @
     ascii '': '' @ cls_name e @ ascii '': '' @ message e"

section \<open>get_api_key (lines 26-32)\<close>

text \<open>
  Line 29 is not guarded: what \<open>st.secrets.get\<close> raises leaves \<open>get_api_key\<close>. Line 31
  reads the environment after line 29 has read the secret store.
\<close>

definition get_api_key :: "world \<Rightarrow> event list \<times> (pyexc + pystr option)" where
  "get_api_key w =
     (case secrets_get w OPENAI_API_KEY of
        Inl e \<Rightarrow> ([Secrets_get OPENAI_API_KEY], Inl e)
      | Inr key \<Rightarrow>
          if \<not> truthy key
          then ([Secrets_get OPENAI_API_KEY, Os_getenv OPENAI_API_KEY],
                Inr (environ_after_secrets w OPENAI_API_KEY))
          else ([Secrets_get OPENAI_API_KEY], Inr key))"

section \<open>ask_expert (lines 39-63)\<close>

text \<open>\<open>result.content if hasattr(result, "content") else str(result)\<close>\<close>

definition reply_text :: "reply \<Rightarrow> pystr" where
  "reply_text result = (case content result of Some c \<Rightarrow> c | None \<Rightarrow> str_of result)"

text \<open>
  The result is the trace of outside accesses and either the raised exception or the
  returned string. The caller always passes \<open>temperature\<close>; its default \<open>0.2\<close> is not used
  by the script.
\<close>

definition ask_expert :: "world \<Rightarrow> pystr \<Rightarrow> pystr \<Rightarrow> real \<Rightarrow> event list \<times> (pyexc + pystr)" where
  "ask_expert w input_text expert_choice temp =
     (case SYSTEM_PROMPTS expert_choice of
        None \<Rightarrow> ([], Inl (ValueError INVALID_CHOICE_MSG))
      | Some prompt \<Rightarrow>
          (case get_api_key w of
             (ev, Inl e) \<Rightarrow> (ev, Inl e)
           | (ev, Inr key) \<Rightarrow>
               if \<not> truthy key then (ev, Inl (RuntimeError MISSING_KEY_MSG))
               else
                 (let llm = \<lparr>api_key = the_str key, model = MODEL_NAME, temperature = temp\<rparr>;
                      messages = [SystemMessage prompt, HumanMessage input_text]
                  in (ev @ [Llm_invoke llm messages],
                      case llm_invoke w llm messages of
                        Inl e \<Rightarrow> Inl e
                      | Inr result \<Rightarrow> Inr (reply_text result)))))"

section \<open>The submission handler (lines 78-96)\<close>

text \<open>The body of \<open>try\<close>: the trace, and the exception that leaves it, if any.\<close>

definition try_body :: "world \<Rightarrow> pystr \<Rightarrow> pystr \<Rightarrow> real \<Rightarrow> event list \<times> pyexc option" where
  "try_body w user_input expert_choice temp =
     (if strip user_input = [] then ([St (St_warning WARNING_MSG)], None)
      else
        (case ask_expert w user_input expert_choice temp of
           (ev, Inl e) \<Rightarrow> (St (St_spinner SPINNER_MSG) # ev, Some e)
         | (ev, Inr answer) \<Rightarrow>
             (St (St_spinner SPINNER_MSG) # ev @ [St (St_success SUCCESS_MSG), St (St_write answer)],
              None)))"

text \<open>
  \<open>try ... except RuntimeError ... except Exception ...\<close>: the trace, and the exception
  that no clause caught, if any.
\<close>

definition on_submit :: "world \<Rightarrow> pystr \<Rightarrow> pystr \<Rightarrow> real \<Rightarrow> event list \<times> pyexc option" where
  "on_submit w user_input expert_choice temp =
     (case try_body w user_input expert_choice temp of
        (ev, None) \<Rightarrow> (ev, None)
      | (ev, Some e) \<Rightarrow>
          (case base e of
             SubRuntimeError \<Rightarrow> (ev @ [St (St_error (message e)), St (St_info REMEDIATION_HINT)], None)
           | SubException \<Rightarrow> (ev @ [St (St_error (GENERIC_ERROR e))], None)
           | SubBaseException \<Rightarrow> (ev, Some e)))"

text \<open>\<open>if submitted:\<close>\<close>

definition script :: "world \<Rightarrow> bool \<Rightarrow> pystr \<Rightarrow> pystr \<Rightarrow> real \<Rightarrow> event list \<times> pyexc option" where
  "script w submitted user_input expert_choice temp =
     (if submitted then on_submit w user_input expert_choice temp else ([], None))"

section \<open>Vocabulary of the specification\<close>

text \<open>A source holds a non-empty value for a key.\<close>

definition has_value :: "(pystr \<rightharpoonup> pystr) \<Rightarrow> pystr \<Rightarrow> bool" where
  "has_value m k = (case m k of None \<Rightarrow> False | Some v \<Rightarrow> v \<noteq> [])"

text \<open>The network calls, the credential lookups and the Streamlit calls of a trace.\<close>

fun requests :: "event list \<Rightarrow> (chat_openai \<times> message list) list" where
  "requests [] = []"
| "requests (Llm_invoke llm ms # ev) = (llm, ms) # requests ev"
| "requests (e # ev) = requests ev"

fun is_credential_lookup :: "event \<Rightarrow> bool" where
  "is_credential_lookup (Secrets_get k) = True"
| "is_credential_lookup (Os_getenv k) = True"
| "is_credential_lookup e = False"

definition credential_lookups :: "event list \<Rightarrow> event list" where
  "credential_lookups ev = filter is_credential_lookup ev"

fun rendered :: "event list \<Rightarrow> st_call list" where
  "rendered [] = []"
| "rendered (St c # ev) = c # rendered ev"
| "rendered (e # ev) = rendered ev"

text \<open>A message mentions a word: the word occurs in it as a contiguous piece.\<close>

definition mentions :: "pystr \<Rightarrow> pystr \<Rightarrow> bool" where
  "mentions msg word = sublist word msg"

text \<open>
  The two sources as the specification sees them: the entries of the secret store (none
  when there is no file) and the environment. The resolver in the specification's words:
  the value of the secret store if it is non-empty, else the value of the environment
  variable if it is non-empty, else nothing.
\<close>

definition secrets_of :: "world \<Rightarrow> (pystr \<rightharpoonup> pystr)" where
  "secrets_of w =
     (case st_secrets w of No_secrets_toml msg \<Rightarrow> Map.empty | Secrets_toml entries \<Rightarrow> entries)"

definition resolve_api_key_spec :: "world \<Rightarrow> pystr option" where
  "resolve_api_key_spec w =
     (if has_value (secrets_of w) OPENAI_API_KEY then secrets_of w OPENAI_API_KEY
      else if has_value (os_environ w) OPENAI_API_KEY then os_environ w OPENAI_API_KEY
      else None)"

section \<open>Example worlds\<close>

definition replies_ok :: "chat_openai \<Rightarrow> message list \<Rightarrow> pyexc + reply" where
  "replies_ok llm ms = Inr \<lparr>content = Some (ascii ''ok''), str_of = ascii ''content=ok''\<rparr>"


definition raises_runtime :: "chat_openai \<Rightarrow> message list \<Rightarrow> pyexc + reply" where
  "raises_runtime llm ms = Inl (RuntimeError (ascii ''boom''))"

definition raises_auth :: "chat_openai \<Rightarrow> message list \<Rightarrow> pyexc + reply" where
  "raises_auth llm ms =
     Inl \<lparr>base = SubException, cls_name = ascii ''AuthenticationError'', message = ascii ''401''\<rparr>"

definition KeyboardInterrupt :: pyexc where
  "KeyboardInterrupt = \<lparr>base = SubBaseException, cls_name = ascii ''KeyboardInterrupt'', message = []\<rparr>"

definition raises_interrupt :: "chat_openai \<Rightarrow> message list \<Rightarrow> pyexc + reply" where
  "raises_interrupt llm ms = Inl KeyboardInterrupt"

definition one_secret :: secrets_toml where
  "one_secret = Secrets_toml [OPENAI_API_KEY \<mapsto> ascii ''sk-secret'']"

definition no_secret :: secrets_toml where
  "no_secret = Secrets_toml Map.empty"

definition no_file :: secrets_toml where
  "no_file = No_secrets_toml (ascii ''No secrets found.'')"

definition w_both :: world where
  "w_both = \<lparr>st_secrets = one_secret,
             os_environ = [OPENAI_API_KEY \<mapsto> ascii ''sk-env''], llm_invoke = replies_ok\<rparr>"

definition w_env_only :: world where
  "w_env_only = \<lparr>st_secrets = no_secret,
                 os_environ = [OPENAI_API_KEY \<mapsto> ascii ''sk-env''], llm_invoke = replies_ok\<rparr>"

definition w_env_empty :: world where
  "w_env_empty = \<lparr>st_secrets = no_secret,
                  os_environ = [OPENAI_API_KEY \<mapsto> []], llm_invoke = replies_ok\<rparr>"

definition w_no_key :: world where
  "w_no_key = \<lparr>st_secrets = no_secret, os_environ = Map.empty, llm_invoke = replies_ok\<rparr>"

text \<open>The local set-up without a \<open>secrets.toml\<close>, and no key in \<open>.env\<close> either.\<close>

definition w_local_no_key :: world where
  "w_local_no_key = \<lparr>st_secrets = no_file, os_environ = Map.empty, llm_invoke = replies_ok\<rparr>"

definition w_runtime :: world where
  "w_runtime = \<lparr>st_secrets = one_secret, os_environ = Map.empty, llm_invoke = raises_runtime\<rparr>"

definition w_auth :: world where
  "w_auth = \<lparr>st_secrets = one_secret, os_environ = Map.empty, llm_invoke = raises_auth\<rparr>"

definition w_interrupt :: world where
  "w_interrupt = \<lparr>st_secrets = one_secret, os_environ = Map.empty, llm_invoke = raises_interrupt\<rparr>"


section \<open>Auxiliary facts\<close>

lemma ascii_A_neq_B: "ascii ''A'' \<noteq> ascii ''B''"
  by (simp add: ascii_def)

lemma SYSTEM_PROMPTS_A: "SYSTEM_PROMPTS (ascii ''A'') = Some PROMPT_A"
  by (simp add: SYSTEM_PROMPTS_def)

lemma SYSTEM_PROMPTS_B: "SYSTEM_PROMPTS (ascii ''B'') = Some PROMPT_B"
  using ascii_A_neq_B by (simp add: SYSTEM_PROMPTS_def)

lemma SYSTEM_PROMPTS_other:
  "expert_choice \<noteq> ascii ''A'' \<Longrightarrow> expert_choice \<noteq> ascii ''B'' \<Longrightarrow> SYSTEM_PROMPTS expert_choice = None"
  by (simp add: SYSTEM_PROMPTS_def)

lemma mentionsI: "msg = before @ word @ after \<Longrightarrow> mentions msg word"
  unfolding mentions_def sublist_def by blast

lemma truthy_has_value: "truthy (m k) = has_value m k"
  by (cases "m k") (simp_all add: has_value_def)

lemma get_api_key_secret:
  "st_secrets w = Secrets_toml entries \<Longrightarrow> has_value entries OPENAI_API_KEY \<Longrightarrow>
   get_api_key w = ([Secrets_get OPENAI_API_KEY], Inr (entries OPENAI_API_KEY))"
  by (simp add: get_api_key_def secrets_get_def truthy_has_value)

lemma get_api_key_env:
  "st_secrets w = Secrets_toml entries \<Longrightarrow> entries OPENAI_API_KEY = None \<Longrightarrow>
   get_api_key w =
     ([Secrets_get OPENAI_API_KEY, Os_getenv OPENAI_API_KEY], Inr (os_environ w OPENAI_API_KEY))"
  by (simp add: get_api_key_def secrets_get_def environ_after_secrets_def map_add_def)

lemma get_api_key_no_file:
  "st_secrets w = No_secrets_toml msg \<Longrightarrow>
   get_api_key w = ([Secrets_get OPENAI_API_KEY], Inl (StreamlitSecretNotFoundError msg))"
  by (simp add: get_api_key_def secrets_get_def)

lemma requests_append: "requests (ev @ ev') = requests ev @ requests ev'"
  by (induction ev rule: requests.induct) simp_all

lemma rendered_append: "rendered (ev @ ev') = rendered ev @ rendered ev'"
  by (induction ev rule: rendered.induct) simp_all

lemma requests_get_api_key: "requests (fst (get_api_key w)) = []"
  by (simp add: get_api_key_def split: sum.splits)

lemma rendered_get_api_key: "rendered (fst (get_api_key w)) = []"
  by (simp add: get_api_key_def split: sum.splits)

text \<open>The four ways through \<open>ask_expert\<close>.\<close>

lemma ask_expert_invalid:
  assumes "SYSTEM_PROMPTS expert_choice = None"
  shows "ask_expert w input_text expert_choice temp = ([], Inl (ValueError INVALID_CHOICE_MSG))"
  using assms by (simp add: ask_expert_def)

lemma ask_expert_lookup_raises:
  assumes "SYSTEM_PROMPTS expert_choice = Some prompt" and "snd (get_api_key w) = Inl e"
  shows "ask_expert w input_text expert_choice temp = (fst (get_api_key w), Inl e)"
  using assms by (cases "get_api_key w") (simp add: ask_expert_def)

lemma ask_expert_missing_key:
  assumes "SYSTEM_PROMPTS expert_choice = Some prompt"
    and "snd (get_api_key w) = Inr key" and "\<not> truthy key"
  shows "ask_expert w input_text expert_choice temp =
    (fst (get_api_key w), Inl (RuntimeError MISSING_KEY_MSG))"
  using assms by (cases "get_api_key w") (simp add: ask_expert_def)

lemma ask_expert_invokes:
  assumes "SYSTEM_PROMPTS expert_choice = Some prompt"
    and "snd (get_api_key w) = Inr (Some k)" and "k \<noteq> []"
  shows "ask_expert w input_text expert_choice temp =
    (fst (get_api_key w) @
       [Llm_invoke \<lparr>api_key = k, model = MODEL_NAME, temperature = temp\<rparr>
          [SystemMessage prompt, HumanMessage input_text]],
     case llm_invoke w \<lparr>api_key = k, model = MODEL_NAME, temperature = temp\<rparr>
            [SystemMessage prompt, HumanMessage input_text] of
       Inl e \<Rightarrow> Inl e
     | Inr result \<Rightarrow> Inr (reply_text result))"
  using assms by (cases "get_api_key w") (simp add: ask_expert_def Let_def)

lemma rendered_ask_expert: "rendered (fst (ask_expert w input_text expert_choice temp)) = []"
proof (cases "SYSTEM_PROMPTS expert_choice")
  case None
  then show ?thesis by (simp add: ask_expert_invalid)
next
  case (Some prompt)
  show ?thesis
  proof (cases "snd (get_api_key w)")
    case (Inl e)
    then show ?thesis
      by (simp add: ask_expert_lookup_raises [OF Some] rendered_get_api_key)
  next
    case (Inr key)
    show ?thesis
    proof (cases key)
      case None
      then show ?thesis
        using Inr by (simp add: ask_expert_missing_key [OF Some] rendered_get_api_key)
    next
      case (Some k)
      show ?thesis
      proof (cases "k = []")
        case True
        then show ?thesis
          using Inr Some
          by (simp add: ask_expert_missing_key [OF \<open>SYSTEM_PROMPTS expert_choice = Some prompt\<close>]
              rendered_get_api_key)
      next
        case False
        then show ?thesis
          using Inr Some
          by (simp add: ask_expert_invokes [OF \<open>SYSTEM_PROMPTS expert_choice = Some prompt\<close>]
              rendered_append rendered_get_api_key)
      qed
    qed
  qed
qed

text \<open>An exception leaves the body of \<open>try\<close> only out of \<open>ask_expert\<close>, under the spinner.\<close>

lemma try_body_raises:
  assumes "try_body w user_input expert_choice temp = (ev, Some e)"
  shows "ev = St (St_spinner SPINNER_MSG) # fst (ask_expert w user_input expert_choice temp)
    \<and> snd (ask_expert w user_input expert_choice temp) = Inl e
    \<and> strip user_input \<noteq> []"
  using assms
  by (cases "ask_expert w user_input expert_choice temp")
     (auto simp add: try_body_def split: if_splits sum.splits)

lemma strip_empty_iff: "strip s = [] \<longleftrightarrow> (\<forall>c\<in>set s. py_isspace c)"
proof
  assume "strip s = []"
  then have all_rest: "\<forall>c\<in>set (dropWhile py_isspace s). py_isspace c"
    by (simp add: strip_def)
  have "dropWhile py_isspace s = []"
  proof (rule ccontr)
    assume nonempty: "dropWhile py_isspace s \<noteq> []"
    then have "\<not> py_isspace (hd (dropWhile py_isspace s))"
      by (rule hd_dropWhile)
    moreover have "hd (dropWhile py_isspace s) \<in> set (dropWhile py_isspace s)"
      using nonempty by simp
    ultimately show False
      using all_rest by blast
  qed
  then show "\<forall>c\<in>set s. py_isspace c"
    by simp
next
  assume "\<forall>c\<in>set s. py_isspace c"
  then have blank: "dropWhile py_isspace s = []"
    by simp
  show "strip s = []"
    unfolding strip_def blank by simp
qed

section \<open>Claims\<close>

text \<open>
  C4. For every persona tag other than \<open>A\<close> and \<open>B\<close>, and every input text, temperature and
  world, \<open>ask_expert\<close> raises \<open>ValueError\<close> (the InvalidArgument condition) with the message that
  names the two valid tags \<open>'A'\<close> and \<open>'B'\<close>, and its trace is empty: neither source of the
  credential is read and no network call is made.
\<close>

theorem ask_expert_rejects_unknown_persona:
  assumes "expert_choice \<noteq> ascii ''A''" and "expert_choice \<noteq> ascii ''B''"
  shows "ask_expert w input_text expert_choice temp = ([], Inl (ValueError INVALID_CHOICE_MSG))
    \<and> credential_lookups (fst (ask_expert w input_text expert_choice temp)) = []
    \<and> base (ValueError INVALID_CHOICE_MSG) = SubException
    \<and> mentions INVALID_CHOICE_MSG ([0x27] @ ascii ''A'' @ [0x27])
    \<and> mentions INVALID_CHOICE_MSG ([0x27] @ ascii ''B'' @ [0x27])"
proof -
  have invalid: "ask_expert w input_text expert_choice temp = ([], Inl (ValueError INVALID_CHOICE_MSG))"
    using assms by (simp add: ask_expert_invalid SYSTEM_PROMPTS_other)
  have tag_A: "mentions INVALID_CHOICE_MSG ([0x27] @ ascii ''A'' @ [0x27])"
    by (rule mentionsI [where before = "ascii ''expert_choice '' @ [0x306F] @ ascii '' ''"])
       (simp add: INVALID_CHOICE_MSG_def)
  have tag_B: "mentions INVALID_CHOICE_MSG ([0x27] @ ascii ''B'' @ [0x27])"
    by (rule mentionsI [where before = "ascii ''expert_choice '' @ [0x306F] @ ascii '' '' @
          [0x27] @ ascii ''A'' @ [0x27] @ ascii '' '' @ [0x307E, 0x305F, 0x306F] @ ascii '' ''"])
       (simp add: INVALID_CHOICE_MSG_def)
  show ?thesis
    using invalid tag_A tag_B by (simp add: credential_lookups_def ValueError_def)
qed

theorem ask_expert_rejects_unknown_persona_witness:
  "ask_expert w_both (ascii ''hello'') (ascii ''C'') (1/5) = ([], Inl (ValueError INVALID_CHOICE_MSG))"
  using ask_expert_rejects_unknown_persona [of "ascii ''C''" w_both "ascii ''hello''" "1/5"]
  by (simp add: ascii_def)

text \<open>
  C7. For every submission whose text is empty or consists of whitespace only, the handler
  issues the warning and nothing else: no exception leaves it, no network call is made and
  no credential source is read.
\<close>

theorem on_submit_blank_input:
  assumes "\<forall>c\<in>set user_input. py_isspace c"
  shows "on_submit w user_input expert_choice temp = ([St (St_warning WARNING_MSG)], None)
    \<and> script w True user_input expert_choice temp = ([St (St_warning WARNING_MSG)], None)
    \<and> requests (fst (on_submit w user_input expert_choice temp)) = []
    \<and> credential_lookups (fst (on_submit w user_input expert_choice temp)) = []"
proof -
  have "strip user_input = []"
    using assms by (simp add: strip_empty_iff)
  then have "on_submit w user_input expert_choice temp = ([St (St_warning WARNING_MSG)], None)"
    by (simp add: on_submit_def try_body_def)
  then show ?thesis
    by (simp add: script_def credential_lookups_def)
qed

theorem on_submit_blank_input_witness:
  "on_submit w_both [] (ascii ''A'') (1/5) = ([St (St_warning WARNING_MSG)], None)
   \<and> on_submit w_both [0x20, 0x09, 0x0A, 0x3000] (ascii ''B'') (1/5) =
       ([St (St_warning WARNING_MSG)], None)"
  using on_submit_blank_input [of "[]" w_both "ascii ''A''" "1/5"]
    on_submit_blank_input [of "[0x20, 0x09, 0x0A, 0x3000]" w_both "ascii ''B''" "1/5"]
  by (simp add: py_isspace_def)

text \<open>
  C2, as the code has it where the secret store can be read. \<open>get_api_key\<close> reads the
  secret store first. If the store holds a non-empty value for the key, that value is
  returned and the environment variable is not read. If the store has no entry for the
  key, the environment variable is read and its lookup is returned as it is: the first
  non-empty value found when the variable holds one, and otherwise a falsy result, which is
  \<open>None\<close> for an unset variable and the empty string for a variable set to the empty
  string.
\<close>

theorem get_api_key_precedence:
  assumes "st_secrets w = Secrets_toml entries"
  shows "(has_value entries OPENAI_API_KEY \<longrightarrow>
        get_api_key w = ([Secrets_get OPENAI_API_KEY], Inr (entries OPENAI_API_KEY))
        \<and> snd (get_api_key w) = Inr (resolve_api_key_spec w))
    \<and> (entries OPENAI_API_KEY = None \<longrightarrow>
        get_api_key w =
          ([Secrets_get OPENAI_API_KEY, Os_getenv OPENAI_API_KEY], Inr (os_environ w OPENAI_API_KEY)))
    \<and> (entries OPENAI_API_KEY = None \<and> has_value (os_environ w) OPENAI_API_KEY \<longrightarrow>
        snd (get_api_key w) = Inr (resolve_api_key_spec w))
    \<and> (entries OPENAI_API_KEY = None \<and> \<not> has_value (os_environ w) OPENAI_API_KEY \<longrightarrow>
        snd (get_api_key w) = Inr (os_environ w OPENAI_API_KEY)
        \<and> \<not> truthy (os_environ w OPENAI_API_KEY))"
proof -
  have store: "secrets_of w = entries"
    using assms by (simp add: secrets_of_def)
  have first: "get_api_key w = ([Secrets_get OPENAI_API_KEY], Inr (entries OPENAI_API_KEY))
      \<and> snd (get_api_key w) = Inr (resolve_api_key_spec w)"
    if "has_value entries OPENAI_API_KEY"
    using that by (simp add: get_api_key_secret [OF assms] resolve_api_key_spec_def store)
  have second: "get_api_key w =
      ([Secrets_get OPENAI_API_KEY, Os_getenv OPENAI_API_KEY], Inr (os_environ w OPENAI_API_KEY))"
    if "entries OPENAI_API_KEY = None"
    using that by (simp add: get_api_key_env [OF assms])
  have no_entry: "\<not> has_value entries OPENAI_API_KEY" if "entries OPENAI_API_KEY = None"
    using that by (simp add: has_value_def)
  have found: "snd (get_api_key w) = Inr (resolve_api_key_spec w)"
    if "entries OPENAI_API_KEY = None" and "has_value (os_environ w) OPENAI_API_KEY"
    using that second no_entry by (simp add: resolve_api_key_spec_def store)
  have falsy: "snd (get_api_key w) = Inr (os_environ w OPENAI_API_KEY)
      \<and> \<not> truthy (os_environ w OPENAI_API_KEY)"
    if "entries OPENAI_API_KEY = None" and "\<not> has_value (os_environ w) OPENAI_API_KEY"
    using that second by (simp add: truthy_has_value)
  show ?thesis
    using first second found falsy by blast
qed

theorem get_api_key_precedence_witness:
  "get_api_key w_both = ([Secrets_get OPENAI_API_KEY], Inr (Some (ascii ''sk-secret'')))
   \<and> get_api_key w_env_only =
       ([Secrets_get OPENAI_API_KEY, Os_getenv OPENAI_API_KEY], Inr (Some (ascii ''sk-env'')))
   \<and> get_api_key w_no_key = ([Secrets_get OPENAI_API_KEY, Os_getenv OPENAI_API_KEY], Inr None)"
proof -
  have both: "st_secrets w_both = Secrets_toml [OPENAI_API_KEY \<mapsto> ascii ''sk-secret'']"
    by (simp add: w_both_def one_secret_def)
  have env_only: "st_secrets w_env_only = Secrets_toml Map.empty"
    by (simp add: w_env_only_def no_secret_def)
  have no_key: "st_secrets w_no_key = Secrets_toml Map.empty"
    by (simp add: w_no_key_def no_secret_def)
  show ?thesis
    using get_api_key_precedence [OF both] get_api_key_precedence [OF env_only]
      get_api_key_precedence [OF no_key]
    by (simp add: has_value_def w_env_only_def w_no_key_def ascii_def)
qed

text \<open>
  C2 as stated fails where the secret store has no entry and the environment variable is
  set to the empty string: neither source holds a non-empty value, the specification's
  resolver gives nothing, and \<open>get_api_key\<close> returns the empty string, not \<open>None\<close>.
\<close>

theorem get_api_key_empty_env_counterexample:
  "\<not> has_value (secrets_of w_env_empty) OPENAI_API_KEY
   \<and> \<not> has_value (os_environ w_env_empty) OPENAI_API_KEY
   \<and> resolve_api_key_spec w_env_empty = None
   \<and> snd (get_api_key w_env_empty) = Inr (Some [])
   \<and> snd (get_api_key w_env_empty) \<noteq> Inr None"
  by (simp add: has_value_def resolve_api_key_spec_def secrets_of_def get_api_key_def
      secrets_get_def environ_after_secrets_def w_env_empty_def no_secret_def)

text \<open>
  Where the secret store can be read, the missing credential is reported as the code
  intends: with a valid persona and no non-empty value in either source, \<open>ask_expert\<close>
  raises the \<open>RuntimeError\<close> of lines 45-48 and makes no network call.
\<close>

lemma ask_expert_missing_key_readable_store:
  assumes "st_secrets w = Secrets_toml entries"
    and "\<not> has_value entries OPENAI_API_KEY" and "\<not> has_value (os_environ w) OPENAI_API_KEY"
    and "SYSTEM_PROMPTS expert_choice = Some prompt"
  shows "snd (ask_expert w input_text expert_choice temp) = Inl (RuntimeError MISSING_KEY_MSG)
    \<and> requests (fst (ask_expert w input_text expert_choice temp)) = []"
proof -
  have falsy_entry: "\<not> truthy (entries OPENAI_API_KEY)"
    using assms(2) by (simp add: truthy_has_value)
  have falsy_env: "\<not> truthy (os_environ w OPENAI_API_KEY)"
    using assms(3) by (simp add: truthy_has_value)
  have "\<not> truthy ((os_environ w ++ entries) OPENAI_API_KEY)"
    using falsy_entry falsy_env by (cases "entries OPENAI_API_KEY") (simp_all add: map_add_def)
  then have "snd (get_api_key w) = Inr ((os_environ w ++ entries) OPENAI_API_KEY)"
    using assms(1) falsy_entry
    by (simp add: get_api_key_def secrets_get_def environ_after_secrets_def)
  then show ?thesis
    using \<open>\<not> truthy ((os_environ w ++ entries) OPENAI_API_KEY)\<close>
    by (simp add: ask_expert_missing_key [OF assms(4)] requests_get_api_key)
qed

text \<open>
  C3 fails on the code. Without a \<open>secrets.toml\<close> and without the key in the environment,
  neither source holds a value, and with the valid persona \<open>A\<close> \<open>ask_expert\<close> does not
  raise the \<open>RuntimeError\<close> with the remediation message: line 29 raises
  \<open>StreamlitSecretNotFoundError\<close> before the environment is read, and the handler shows it
  through the generic clause, without the hint. No network call is made.
\<close>

theorem ask_expert_without_secrets_file:
  "\<not> has_value (secrets_of w_local_no_key) OPENAI_API_KEY
   \<and> \<not> has_value (os_environ w_local_no_key) OPENAI_API_KEY
   \<and> ask_expert w_local_no_key (ascii ''hello'') (ascii ''A'') (1/5) =
       ([Secrets_get OPENAI_API_KEY],
        Inl (StreamlitSecretNotFoundError (ascii ''No secrets found.'')))
   \<and> StreamlitSecretNotFoundError (ascii ''No secrets found.'') \<noteq> RuntimeError MISSING_KEY_MSG
   \<and> rendered (fst (on_submit w_local_no_key (ascii ''hello'') (ascii ''A'') (1/5))) =
       [St_spinner SPINNER_MSG,
        St_error (GENERIC_ERROR (StreamlitSecretNotFoundError (ascii ''No secrets found.'')))]"
proof -
  have sources: "\<not> has_value (secrets_of w_local_no_key) OPENAI_API_KEY
      \<and> \<not> has_value (os_environ w_local_no_key) OPENAI_API_KEY"
    by (simp add: has_value_def secrets_of_def w_local_no_key_def no_file_def)
  have raised: "ask_expert w_local_no_key (ascii ''hello'') (ascii ''A'') (1/5) =
      ([Secrets_get OPENAI_API_KEY],
       Inl (StreamlitSecretNotFoundError (ascii ''No secrets found.'')))"
    by (simp add: ask_expert_def SYSTEM_PROMPTS_A get_api_key_def secrets_get_def
        w_local_no_key_def no_file_def)
  have other: "StreamlitSecretNotFoundError (ascii ''No secrets found.'') \<noteq> RuntimeError MISSING_KEY_MSG"
    by (simp add: StreamlitSecretNotFoundError_def RuntimeError_def)
  have not_blank: "strip (ascii ''hello'') \<noteq> []"
    by (simp add: strip_empty_iff ascii_def py_isspace_def)
  have shown: "rendered (fst (on_submit w_local_no_key (ascii ''hello'') (ascii ''A'') (1/5))) =
      [St_spinner SPINNER_MSG,
       St_error (GENERIC_ERROR (StreamlitSecretNotFoundError (ascii ''No secrets found.'')))]"
    using not_blank
    by (simp add: on_submit_def try_body_def raised)
       (simp add: StreamlitSecretNotFoundError_def)
  show ?thesis
    using sources raised other shown by simp
qed

text \<open>
  C5. Whenever a credential resolves, that is, \<open>get_api_key\<close> returns a non-empty key, for
  every input text and temperature the one request sent carries exactly two messages, in
  this order: the system message with the fixed instruction of the persona (\<open>PROMPT_A\<close>,
  the cooking expert, for \<open>A\<close>; \<open>PROMPT_B\<close>, the finance expert, for \<open>B\<close>) and the user
  message with the input text unchanged.
\<close>

theorem ask_expert_message_sequence:
  assumes "snd (get_api_key w) = Inr (Some k)" and "k \<noteq> []"
  shows "map snd (requests (fst (ask_expert w input_text (ascii ''A'') temp))) =
      [[SystemMessage PROMPT_A, HumanMessage input_text]]
    \<and> map snd (requests (fst (ask_expert w input_text (ascii ''B'') temp))) =
      [[SystemMessage PROMPT_B, HumanMessage input_text]]"
  by (simp add: ask_expert_invokes [OF SYSTEM_PROMPTS_A assms]
      ask_expert_invokes [OF SYSTEM_PROMPTS_B assms] requests_append requests_get_api_key)

theorem ask_expert_message_sequence_witness:
  "map snd (requests (fst (ask_expert w_env_only (ascii ''hello'') (ascii ''B'') (1/5)))) =
     [[SystemMessage PROMPT_B, HumanMessage (ascii ''hello'')]]"
proof -
  have key: "snd (get_api_key w_env_only) = Inr (Some (ascii ''sk-env''))"
    by (simp add: get_api_key_def secrets_get_def environ_after_secrets_def w_env_only_def
        no_secret_def)
  have nonempty: "ascii ''sk-env'' \<noteq> []"
    by (simp add: ascii_def)
  show ?thesis
    using ask_expert_message_sequence [OF key nonempty, of "ascii ''hello''" "1/5"] by simp
qed



text \<open>
  C8. For every temperature between 0 and 1, both bounds included, with a valid persona and
  a resolved credential (\<open>get_api_key\<close> returns a non-empty key), \<open>ask_expert\<close> makes
  exactly one request and that request carries the temperature unchanged; \<open>ask_expert\<close>
  adds no failure of its own, its outcome being the remote call's: the raised exception, or
  the text of the reply.
\<close>

theorem ask_expert_forwards_temperature_in_range:
  assumes "0 \<le> temp" and "temp \<le> 1"
    and "SYSTEM_PROMPTS expert_choice = Some prompt"
    and "snd (get_api_key w) = Inr (Some k)" and "k \<noteq> []"
  shows "requests (fst (ask_expert w input_text expert_choice temp)) =
      [(\<lparr>api_key = k, model = MODEL_NAME, temperature = temp\<rparr>,
        [SystemMessage prompt, HumanMessage input_text])]
    \<and> snd (ask_expert w input_text expert_choice temp) =
      (case llm_invoke w \<lparr>api_key = k, model = MODEL_NAME, temperature = temp\<rparr>
              [SystemMessage prompt, HumanMessage input_text] of
         Inl e \<Rightarrow> Inl e
       | Inr result \<Rightarrow> Inr (reply_text result))"
proof -
  note run = ask_expert_invokes [OF assms(3-5), of input_text temp]
  have sent: "requests (fst (ask_expert w input_text expert_choice temp)) =
      [(\<lparr>api_key = k, model = MODEL_NAME, temperature = temp\<rparr>,
        [SystemMessage prompt, HumanMessage input_text])]"
    by (simp add: run requests_append requests_get_api_key)
  have outcome: "snd (ask_expert w input_text expert_choice temp) =
      (case llm_invoke w \<lparr>api_key = k, model = MODEL_NAME, temperature = temp\<rparr>
              [SystemMessage prompt, HumanMessage input_text] of
         Inl e \<Rightarrow> Inl e
       | Inr result \<Rightarrow> Inr (reply_text result))"
    by (simp add: run)
  show ?thesis
    using sent outcome by simp
qed

theorem ask_expert_forwards_temperature_in_range_witness:
  "map (\<lambda>r. temperature (fst r)) (requests (fst (ask_expert w_both (ascii ''hello'') (ascii ''A'') 0))) = [0]
   \<and> snd (ask_expert w_both (ascii ''hello'') (ascii ''A'') 0) = Inr (ascii ''ok'')
   \<and> map (\<lambda>r. temperature (fst r)) (requests (fst (ask_expert w_both (ascii ''hello'') (ascii ''A'') 1))) = [1]
   \<and> snd (ask_expert w_both (ascii ''hello'') (ascii ''A'') 1) = Inr (ascii ''ok'')"
proof -
  have range0: "(0::real) \<le> 0" "(0::real) \<le> 1" and range1: "(0::real) \<le> 1" "(1::real) \<le> 1"
    by simp_all
  have key: "snd (get_api_key w_both) = Inr (Some (ascii ''sk-secret''))"
    by (simp add: get_api_key_def secrets_get_def w_both_def one_secret_def ascii_def)
  have nonempty: "ascii ''sk-secret'' \<noteq> []"
    by (simp add: ascii_def)
  have replies: "llm_invoke w_both = replies_ok"
    by (simp add: w_both_def)
  show ?thesis
    using ask_expert_forwards_temperature_in_range
        [OF range0 SYSTEM_PROMPTS_A key nonempty, of "ascii ''hello''"]
      ask_expert_forwards_temperature_in_range
        [OF range1 SYSTEM_PROMPTS_A key nonempty, of "ascii ''hello''"]
    by (simp add: replies replies_ok_def reply_text_def)
qed

text \<open>
  C9. \<open>ask_expert\<close> does not validate the temperature. For every real temperature,
  inside or outside the interval from 0 to 1, with a valid persona and a resolved
  credential (\<open>get_api_key\<close> returns a non-empty key), exactly one request is made, its
  sampling parameter is the given value, and an exception leaves \<open>ask_expert\<close> only if the
  remote call raised that exception on that request.
\<close>

theorem ask_expert_no_temperature_validation:
  assumes "SYSTEM_PROMPTS expert_choice = Some prompt"
    and "snd (get_api_key w) = Inr (Some k)" and "k \<noteq> []"
  shows "map (\<lambda>r. temperature (fst r)) (requests (fst (ask_expert w input_text expert_choice temp)))
      = [temp]
    \<and> (\<forall>e. snd (ask_expert w input_text expert_choice temp) = Inl e \<longrightarrow>
          (\<exists>llm ms. requests (fst (ask_expert w input_text expert_choice temp)) = [(llm, ms)]
             \<and> temperature llm = temp \<and> llm_invoke w llm ms = Inl e))"
  by (simp add: ask_expert_invokes [OF assms] requests_append requests_get_api_key
      split: sum.splits)

theorem ask_expert_no_temperature_validation_witness:
  "map (\<lambda>r. temperature (fst r)) (requests (fst (ask_expert w_env_only (ascii ''hello'') (ascii ''B'') 5)))
     = [5]
   \<and> map (\<lambda>r. temperature (fst r)) (requests (fst (ask_expert w_env_only (ascii ''hello'') (ascii ''B'') (- 3))))
     = [- 3]"
proof -
  have key: "snd (get_api_key w_env_only) = Inr (Some (ascii ''sk-env''))"
    by (simp add: get_api_key_def secrets_get_def environ_after_secrets_def w_env_only_def
        no_secret_def)
  have nonempty: "ascii ''sk-env'' \<noteq> []"
    by (simp add: ascii_def)
  show ?thesis
    using ask_expert_no_temperature_validation
        [OF SYSTEM_PROMPTS_B key nonempty, of "ascii ''hello''" 5]
      ask_expert_no_temperature_validation
        [OF SYSTEM_PROMPTS_B key nonempty, of "ascii ''hello''" "- 3"]
    by simp
qed

text \<open>
  C10. The guard against empty or whitespace-only text is in the handler only. Called
  directly with such a text, a valid persona and a resolved credential (\<open>get_api_key\<close>
  returns a non-empty key), \<open>ask_expert\<close> makes the network call and sends the text
  unchanged as the user message; the handler, given the same text, makes no call.
\<close>

theorem ask_expert_sends_blank_text:
  assumes "\<forall>c\<in>set input_text. py_isspace c"
    and "SYSTEM_PROMPTS expert_choice = Some prompt"
    and "snd (get_api_key w) = Inr (Some k)" and "k \<noteq> []"
  shows "requests (fst (ask_expert w input_text expert_choice temp)) =
      [(\<lparr>api_key = k, model = MODEL_NAME, temperature = temp\<rparr>,
        [SystemMessage prompt, HumanMessage input_text])]
    \<and> requests (fst (on_submit w input_text expert_choice temp)) = []"
proof -
  have "strip input_text = []"
    using assms(1) by (simp add: strip_empty_iff)
  then have "on_submit w input_text expert_choice temp = ([St (St_warning WARNING_MSG)], None)"
    by (simp add: on_submit_def try_body_def)
  then show ?thesis
    by (simp add: ask_expert_invokes [OF assms(2-4)] requests_append requests_get_api_key)
qed

theorem ask_expert_sends_blank_text_witness:
  "map snd (requests (fst (ask_expert w_both [0x20, 0x0A] (ascii ''A'') (1/5)))) =
     [[SystemMessage PROMPT_A, HumanMessage [0x20, 0x0A]]]
   \<and> map snd (requests (fst (ask_expert w_both [] (ascii ''A'') (1/5)))) =
     [[SystemMessage PROMPT_A, HumanMessage []]]"
proof -
  have blank: "\<forall>c\<in>set [0x20, 0x0A]. py_isspace c" and empty: "\<forall>c\<in>set []. py_isspace c"
    by (simp_all add: py_isspace_def)
  have key: "snd (get_api_key w_both) = Inr (Some (ascii ''sk-secret''))"
    by (simp add: get_api_key_def secrets_get_def w_both_def one_secret_def ascii_def)
  have nonempty: "ascii ''sk-secret'' \<noteq> []"
    by (simp add: ascii_def)
  show ?thesis
    using ask_expert_sends_blank_text [OF blank SYSTEM_PROMPTS_A key nonempty, of "1/5"]
      ask_expert_sends_blank_text [OF empty SYSTEM_PROMPTS_A key nonempty, of "1/5"]
    by simp
qed

text \<open>
  C1, as the code has it. Whenever an exception leaves the body of \<open>try\<close> during a
  submission, what happens depends on its class only. An instance of \<open>Exception\<close> never
  leaves the handler. If it is an instance of \<open>RuntimeError\<close>, it is shown as its message
  followed by the remediation hint that names \<open>.env\<close> and \<open>Secrets\<close>: this is how the
  MissingConfiguration failure of lines 45-48 is shown, whose own message names both
  sources too, and also any \<open>RuntimeError\<close> that the remote call raised. Every other
  instance of \<open>Exception\<close> is shown as one error text holding the class name and the
  message.
\<close>

theorem on_submit_renders_failures:
  assumes "try_body w user_input expert_choice temp = (ev, Some e)"
  shows "(base e = SubRuntimeError \<longrightarrow>
        on_submit w user_input expert_choice temp =
          (ev @ [St (St_error (message e)), St (St_info REMEDIATION_HINT)], None)
        \<and> rendered (fst (on_submit w user_input expert_choice temp)) =
          [St_spinner SPINNER_MSG, St_error (message e), St_info REMEDIATION_HINT])
    \<and> (base e = SubException \<longrightarrow>
        on_submit w user_input expert_choice temp = (ev @ [St (St_error (GENERIC_ERROR e))], None)
        \<and> rendered (fst (on_submit w user_input expert_choice temp)) =
          [St_spinner SPINNER_MSG, St_error (GENERIC_ERROR e)])
    \<and> (e = RuntimeError MISSING_KEY_MSG \<longrightarrow>
        rendered (fst (on_submit w user_input expert_choice temp)) =
          [St_spinner SPINNER_MSG, St_error MISSING_KEY_MSG, St_info REMEDIATION_HINT]
        \<and> snd (on_submit w user_input expert_choice temp) = None)
    \<and> mentions MISSING_KEY_MSG (ascii ''.env'')
    \<and> mentions MISSING_KEY_MSG (ascii ''Secrets'')
    \<and> mentions REMEDIATION_HINT (ascii ''.env'')
    \<and> mentions REMEDIATION_HINT (ascii ''Secrets'')
    \<and> mentions (GENERIC_ERROR e) (cls_name e)
    \<and> mentions (GENERIC_ERROR e) (message e)"
proof -
  have shown: "rendered ev = [St_spinner SPINNER_MSG]"
    using try_body_raises [OF assms] by (simp add: rendered_ask_expert)
  have runtime: "on_submit w user_input expert_choice temp =
        (ev @ [St (St_error (message e)), St (St_info REMEDIATION_HINT)], None)
      \<and> rendered (fst (on_submit w user_input expert_choice temp)) =
        [St_spinner SPINNER_MSG, St_error (message e), St_info REMEDIATION_HINT]"
    if "base e = SubRuntimeError"
    using that shown by (simp add: on_submit_def assms rendered_append)
  have other: "on_submit w user_input expert_choice temp =
        (ev @ [St (St_error (GENERIC_ERROR e))], None)
      \<and> rendered (fst (on_submit w user_input expert_choice temp)) =
        [St_spinner SPINNER_MSG, St_error (GENERIC_ERROR e)]"
    if "base e = SubException"
    using that shown by (simp add: on_submit_def assms rendered_append)
  have missing: "rendered (fst (on_submit w user_input expert_choice temp)) =
        [St_spinner SPINNER_MSG, St_error MISSING_KEY_MSG, St_info REMEDIATION_HINT]
      \<and> snd (on_submit w user_input expert_choice temp) = None"
    if missing_key: "e = RuntimeError MISSING_KEY_MSG"
  proof -
    have "base e = SubRuntimeError" and "message e = MISSING_KEY_MSG"
      using missing_key by (simp_all add: RuntimeError_def)
    with runtime shown show ?thesis
      by (simp add: rendered_append)
  qed
  have key_env: "mentions MISSING_KEY_MSG (ascii ''.env'')"
    by (rule mentionsI [where after = "ascii '' '' @ [0x306B] @ ascii '' OPENAI_API_KEY=... '' @
          [0x3092, 0x8A18, 0x8F09, 0x3001] @ ascii ''Streamlit Cloud '' @ [0x3067, 0x306F] @
          ascii '' Secrets '' @
          [0x306B, 0x8A2D, 0x5B9A, 0x3057, 0x3066, 0x304F, 0x3060, 0x3055, 0x3044, 0x3002]"])
       (simp add: MISSING_KEY_MSG_def ascii_def)
  have key_secrets: "mentions MISSING_KEY_MSG (ascii ''Secrets'')"
    by (rule mentionsI [where after = "ascii '' '' @
          [0x306B, 0x8A2D, 0x5B9A, 0x3057, 0x3066, 0x304F, 0x3060, 0x3055, 0x3044, 0x3002]"])
       (simp add: MISSING_KEY_MSG_def ascii_def)
  have hint_env: "mentions REMEDIATION_HINT (ascii ''.env'')"
    by (rule mentionsI [where before = "[0x30ED, 0x30FC, 0x30AB, 0x30EB, 0x958B, 0x767A] @
          ascii '': '' @ [0x30D7, 0x30ED, 0x30B8, 0x30A7, 0x30AF, 0x30C8, 0x76F4, 0x4E0B, 0x306B] @
          ascii '' '' @ [0x60]"])
       (simp add: REMEDIATION_HINT_def)
  have hint_secrets: "mentions REMEDIATION_HINT (ascii ''Secrets'')"
    by (rule mentionsI [where after = "ascii '' '' @ [0x306B] @ ascii '' '' @ [0x60] @
          ascii ''OPENAI_API_KEY'' @ [0x60] @ ascii '' '' @
          [0x3092, 0x8A2D, 0x5B9A, 0x3057, 0x3066, 0x304F, 0x3060, 0x3055, 0x3044, 0x3002]"])
       (simp add: REMEDIATION_HINT_def ascii_def)
  have generic_cls: "mentions (GENERIC_ERROR e) (cls_name e)"
    by (rule mentionsI [where after = "ascii '': '' @ message e"]) (simp add: GENERIC_ERROR_def)
  have generic_msg: "mentions (GENERIC_ERROR e) (message e)"
    by (rule mentionsI [where after = "[]"]) (simp add: GENERIC_ERROR_def)
  show ?thesis
    using runtime other missing key_env key_secrets hint_env hint_secrets generic_cls generic_msg
    by blast
qed

theorem on_submit_renders_failures_witness:
  "rendered (fst (on_submit w_auth (ascii ''hello'') (ascii ''A'') (1/5))) =
     [St_spinner SPINNER_MSG,
      St_error (GENERIC_ERROR
        \<lparr>base = SubException, cls_name = ascii ''AuthenticationError'', message = ascii ''401''\<rparr>)]
   \<and> snd (on_submit w_auth (ascii ''hello'') (ascii ''A'') (1/5)) = None
   \<and> rendered (fst (on_submit w_no_key (ascii ''hello'') (ascii ''A'') (1/5))) =
     [St_spinner SPINNER_MSG, St_error MISSING_KEY_MSG, St_info REMEDIATION_HINT]
   \<and> snd (on_submit w_no_key (ascii ''hello'') (ascii ''A'') (1/5)) = None"
proof -
  have not_blank: "strip (ascii ''hello'') \<noteq> []"
    by (simp add: strip_empty_iff ascii_def py_isspace_def)
  have auth: "try_body w_auth (ascii ''hello'') (ascii ''A'') (1/5) =
      ([St (St_spinner SPINNER_MSG), Secrets_get OPENAI_API_KEY,
        Llm_invoke \<lparr>api_key = ascii ''sk-secret'', model = MODEL_NAME, temperature = 1/5\<rparr>
          [SystemMessage PROMPT_A, HumanMessage (ascii ''hello'')]],
       Some \<lparr>base = SubException, cls_name = ascii ''AuthenticationError'', message = ascii ''401''\<rparr>)"
    using not_blank
    by (simp add: try_body_def ask_expert_def SYSTEM_PROMPTS_A get_api_key_def secrets_get_def
        w_auth_def one_secret_def raises_auth_def ascii_def [of "''sk-secret''"])
  have no_key: "try_body w_no_key (ascii ''hello'') (ascii ''A'') (1/5) =
      ([St (St_spinner SPINNER_MSG), Secrets_get OPENAI_API_KEY, Os_getenv OPENAI_API_KEY],
       Some (RuntimeError MISSING_KEY_MSG))"
    using not_blank
    by (simp add: try_body_def ask_expert_def SYSTEM_PROMPTS_A get_api_key_def secrets_get_def
        environ_after_secrets_def w_no_key_def no_secret_def)
  show ?thesis
    using on_submit_renders_failures [OF auth] on_submit_renders_failures [OF no_key]
    by simp
qed

text \<open>
  C1 as stated fails in two places. A \<open>RuntimeError\<close> raised by the remote call, with the
  credential resolved and the request made, is not the MissingConfiguration failure, yet
  the handler shows its bare message and the remediation hint, and does not show the
  generic text with the class name. And an exception that is not an instance of
  \<open>Exception\<close>, such as \<open>KeyboardInterrupt\<close> during the remote call, is not caught: it
  leaves the handler and nothing but the spinner is shown.
\<close>

theorem on_submit_remote_runtime_error_counterexample:
  "requests (fst (ask_expert w_runtime (ascii ''hello'') (ascii ''A'') (1/5))) =
     [(\<lparr>api_key = ascii ''sk-secret'', model = MODEL_NAME, temperature = 1/5\<rparr>,
       [SystemMessage PROMPT_A, HumanMessage (ascii ''hello'')])]
   \<and> snd (ask_expert w_runtime (ascii ''hello'') (ascii ''A'') (1/5)) =
       Inl (RuntimeError (ascii ''boom''))
   \<and> RuntimeError (ascii ''boom'') \<noteq> RuntimeError MISSING_KEY_MSG
   \<and> rendered (fst (on_submit w_runtime (ascii ''hello'') (ascii ''A'') (1/5))) =
       [St_spinner SPINNER_MSG, St_error (ascii ''boom''), St_info REMEDIATION_HINT]
   \<and> St_error (GENERIC_ERROR (RuntimeError (ascii ''boom''))) \<notin>
       set (rendered (fst (on_submit w_runtime (ascii ''hello'') (ascii ''A'') (1/5))))
   \<and> snd (on_submit w_interrupt (ascii ''hello'') (ascii ''A'') (1/5)) = Some KeyboardInterrupt
   \<and> rendered (fst (on_submit w_interrupt (ascii ''hello'') (ascii ''A'') (1/5))) =
       [St_spinner SPINNER_MSG]"
proof -
  have call: "ask_expert w_runtime (ascii ''hello'') (ascii ''A'') (1/5) =
      ([Secrets_get OPENAI_API_KEY,
        Llm_invoke \<lparr>api_key = ascii ''sk-secret'', model = MODEL_NAME, temperature = 1/5\<rparr>
          [SystemMessage PROMPT_A, HumanMessage (ascii ''hello'')]],
       Inl (RuntimeError (ascii ''boom'')))"
    by (simp add: ask_expert_def SYSTEM_PROMPTS_A get_api_key_def secrets_get_def w_runtime_def
        one_secret_def raises_runtime_def ascii_def [of "''sk-secret''"])
  have interrupted: "ask_expert w_interrupt (ascii ''hello'') (ascii ''A'') (1/5) =
      ([Secrets_get OPENAI_API_KEY,
        Llm_invoke \<lparr>api_key = ascii ''sk-secret'', model = MODEL_NAME, temperature = 1/5\<rparr>
          [SystemMessage PROMPT_A, HumanMessage (ascii ''hello'')]],
       Inl KeyboardInterrupt)"
    by (simp add: ask_expert_def SYSTEM_PROMPTS_A get_api_key_def secrets_get_def w_interrupt_def
        one_secret_def raises_interrupt_def ascii_def [of "''sk-secret''"])
  have not_blank: "strip (ascii ''hello'') \<noteq> []"
    by (simp add: strip_empty_iff ascii_def py_isspace_def)
  have shown: "rendered (fst (on_submit w_runtime (ascii ''hello'') (ascii ''A'') (1/5))) =
      [St_spinner SPINNER_MSG, St_error (ascii ''boom''), St_info REMEDIATION_HINT]"
    using not_blank by (simp add: on_submit_def try_body_def call RuntimeError_def)
  have escapes: "on_submit w_interrupt (ascii ''hello'') (ascii ''A'') (1/5) =
      ([St (St_spinner SPINNER_MSG), Secrets_get OPENAI_API_KEY,
        Llm_invoke \<lparr>api_key = ascii ''sk-secret'', model = MODEL_NAME, temperature = 1/5\<rparr>
          [SystemMessage PROMPT_A, HumanMessage (ascii ''hello'')]],
       Some KeyboardInterrupt)"
    using not_blank
    by (simp add: on_submit_def try_body_def interrupted)
       (simp add: KeyboardInterrupt_def)
  have other_failure: "RuntimeError (ascii ''boom'') \<noteq> RuntimeError MISSING_KEY_MSG"
    by (simp add: RuntimeError_def MISSING_KEY_MSG_def ascii_def)
  have not_generic: "ascii ''boom'' \<noteq> GENERIC_ERROR (RuntimeError (ascii ''boom''))"
    by (simp add: GENERIC_ERROR_def ascii_def)
  show ?thesis
    using call shown other_failure not_generic escapes by simp
qed

end
